theory Spec2Isabelle
  imports Complex_Main
begin

section \<open>The reporting client of website/app.js\<close>

text \<open>
  The page script keeps three globals (\<open>map\<close>, \<open>marker\<close>, \<open>selectedLocation\<close>) and otherwise
  reads and writes the document. The model below is a record of everything the handlers touch,
  and one function per handler that returns the updated record. What the network answers and
  what the clock reads are arguments of the handler that asks for them.

  An \<open>async\<close> handler is one step of the model, from the event to the end of its last
  continuation: other events are not interleaved with a request in flight. The file readers
  started by \<open>handlePhotoPreview\<close> are different: the handler returns before any of them
  has finished, and each \<open>onload\<close> is an event of its own.

  The markup of the page is not among the sources. The model takes the controls named
  \<open>location\<close> and \<open>photo\<close> of the form to be the elements with these ids, as the handlers do.
  Navigation between sections (\<open>handleNavigation\<close>, \<open>showReportForm\<close>) touches nothing the
  other handlers read, and is left out.
\<close>

subsection \<open>Strings and numbers of the platform\<close>

text \<open>\<open>String.prototype.startsWith\<close>.\<close>

definition startsWith :: "string \<Rightarrow> string \<Rightarrow> bool" where
  "startsWith s p = (take (length p) s = p)"

text \<open>
  \<open>String.prototype.replace\<close> with a string pattern: only the first occurrence of the pattern
  is replaced. (The replacement used by the script has no \<open>$\<close> in it.)
\<close>

fun replace :: "string \<Rightarrow> string \<Rightarrow> string \<Rightarrow> string" where
  "replace s pat rep =
     (if startsWith s pat then rep @ drop (length pat) s
      else (case s of [] \<Rightarrow> [] | c # cs \<Rightarrow> c # replace cs pat rep))"

declare replace.simps [simp del]

text \<open>\<open>String.prototype.toUpperCase\<close>, on ASCII text: the letters a to z move to A to Z.\<close>

definition upper_char :: "char \<Rightarrow> char" where
  "upper_char c =
     (let n = (of_char c :: nat) in if 97 \<le> n \<and> n \<le> 122 then char_of (n - 32) else c)"

definition toUpperCase :: "string \<Rightarrow> string" where
  "toUpperCase s = map upper_char s"

text \<open>The decimal digits of a natural number, most significant first.\<close>

definition digit_char :: "nat \<Rightarrow> char" where
  "digit_char d = char_of (48 + d)"

definition is_digit :: "char \<Rightarrow> bool" where
  "is_digit c = (let n = (of_char c :: nat) in 48 \<le> n \<and> n \<le> 57)"

fun digits :: "nat \<Rightarrow> string" where
  "digits n = (if n < 10 then [digit_char n] else digits (n div 10) @ [digit_char (n mod 10)])"

declare digits.simps [simp del]

text \<open>
  The text of an integer-valued Number, as string concatenation and \<open>textContent\<close> produce it
  (decimal notation, which JavaScript uses for magnitudes below \<open>10^21\<close>).
\<close>

definition number_text :: "int \<Rightarrow> string" where
  "number_text i = (if i < 0 then ''-'' @ digits (nat (- i)) else digits (nat i))"

text \<open>
  \<open>Number.prototype.toFixed(f)\<close> on the exact value \<open>x\<close> of a finite Number of magnitude below
  \<open>10^21\<close> (above that JavaScript switches to exponent notation, which is not modelled):
  the sign, then the integer \<open>n\<close> nearest to \<open>|x| * 10^f\<close> (the larger one on a tie), padded
  with zeros to at least \<open>f + 1\<close> digits, with the point before the last \<open>f\<close> digits.
\<close>

definition toFixed :: "real \<Rightarrow> nat \<Rightarrow> string" where
  "toFixed x f =
     (let s = (if x < 0 then ''-'' else '''');
          n = nat \<lfloor>\<bar>x\<bar> * 10 ^ f + 1 / 2\<rfloor>;
          m = digits n;
          m = (if length m \<le> f then replicate (f + 1 - length m) (CHR ''0'') @ m else m);
          k = length m
      in s @ (if f \<noteq> 0 then take (k - f) m @ ''.'' @ drop (k - f) m else m))"

subsection \<open>Data\<close>

text \<open>A coordinate, \<open>{lat, lng}\<close>; the exact values of two finite Numbers.\<close>

record latlng =
  lat :: real
  lng :: real

text \<open>A Leaflet marker object: its identity and its position.\<close>

record layer =
  layer_id :: nat
  layer_latlng :: latlng

text \<open>A selected file: its MIME type and the data URL that reading it yields.\<close>

record js_file =
  file_type :: string
  file_dataURL :: string

text \<open>The text controls of the report form, by name.\<close>

record fields =
  issueType :: string
  description :: string
  location :: string
  reporterName :: string
  reporterEmail :: string
  reporterPhone :: string

text \<open>The form: the text controls and the file input \<open>photo\<close>.\<close>

record form = fields +
  photo :: "js_file list"

text \<open>\<open>reportData\<close>, the JSON part of a submission.\<close>

record reportData = fields +
  coordinates :: "latlng option"
  timestamp :: string
  status :: string

text \<open>A report of the search API (\<open>lastUpdate\<close> may be absent).\<close>

record report =
  report_id :: string
  report_issueType :: string
  report_description :: string
  report_location :: string
  report_status :: string
  report_timestamp :: string
  report_lastUpdate :: "string option"

text \<open>
  A \<open>div.report-item\<close>, by the interpolated parts of its markup. The date line shows
  \<open>report.timestamp\<close> through \<open>toLocaleDateString\<close>, which depends on the browser's locale;
  the element records the timestamp it formats.
\<close>

record report_item =
  item_id :: string
  item_status_class :: string
  item_status :: string
  item_heading :: string
  item_location :: string
  item_description :: string
  item_reported :: string
  item_lastUpdate :: "string option"

text \<open>The counts of the stats API.\<close>

record stats =
  total :: int
  pending :: int
  inProgress :: int
  resolved :: int

text \<open>The requests the page sends.\<close>

datatype request =
    PostReports reportData "js_file list"
  | GetSearch string
  | GetStats

text \<open>
  What \<open>await fetch(...)\<close> followed by \<open>await response.json()\<close> gives: the fetch throws, or
  there is a response with a status and a body, where the body is \<open>None\<close> when reading it as
  JSON (or using what was read) throws.
\<close>

datatype 'a fetched = Throws | Response nat "'a option"

definition ok :: "nat \<Rightarrow> bool" where
  "ok code = (200 \<le> code \<and> code \<le> 299)"

text \<open>The globals of the script and the parts of the document its handlers read and write.\<close>

record page =
  marker :: "layer option"
  selectedLocation :: "latlng option"
  map_layers :: "layer list"
  layers_created :: nat
  form :: form
  photo_preview :: "string list"
  readers :: "js_file list"
  report_id_text :: string
  success_modal_hidden :: bool
  alerts :: "string list"
  console :: "string list"
  search_input :: string
  reports_list :: "report_item list"
  total_reports :: string
  pending_reports :: string
  in_progress_reports :: string
  resolved_reports :: string
  requests :: "request list"

subsection \<open>The map\<close>

text \<open>\<open>map.removeLayer(m)\<close>: the layer object \<open>m\<close> leaves the map (nothing happens if it is not on it).\<close>

definition removeLayer :: "layer \<Rightarrow> layer list \<Rightarrow> layer list" where
  "removeLayer m ls = filter (\<lambda>l. layer_id l \<noteq> layer_id m) ls"

text \<open>
  The click handler installed by \<open>initializeMap\<close>; \<open>e\<close> is \<open>e.latlng\<close>. The control with id
  \<open>location\<close> is the form's \<open>location\<close> control.
\<close>

definition map_click :: "latlng \<Rightarrow> page \<Rightarrow> page" where
  "map_click e s =
     (let ls = (case marker s of Some m \<Rightarrow> removeLayer m (map_layers s) | None \<Rightarrow> map_layers s);
          m' = \<lparr>layer_id = layers_created s, layer_latlng = \<lparr>lat = lat e, lng = lng e\<rparr>\<rparr>
      in s\<lparr>marker := Some m',
            map_layers := ls @ [m'],
            layers_created := Suc (layers_created s),
            selectedLocation := Some \<lparr>lat = lat e, lng = lng e\<rparr>,
            form := (form s)\<lparr>location := toFixed (lat e) 6 @ '', '' @ toFixed (lng e) 6\<rparr>\<rparr>)"

subsection \<open>Photo previews\<close>

text \<open>
  \<open>handlePhotoPreview\<close>, run when the selection of the file input has changed: the container is
  emptied and one \<open>FileReader\<close> is started for each selected file whose type starts with
  \<open>image/\<close>. Nothing is appended yet: the \<open>img\<close> is created by the reader's \<open>onload\<close>.
\<close>

definition is_image :: "js_file \<Rightarrow> bool" where
  "is_image f = startsWith (file_type f) ''image/''"

definition handlePhotoPreview :: "page \<Rightarrow> page" where
  "handlePhotoPreview s =
     s\<lparr>photo_preview := [], readers := readers s @ filter is_image (photo (form s))\<rparr>"

text \<open>The user picks the files \<open>fs\<close>: the input holds them and its \<open>change\<close> event fires.\<close>

definition photo_change :: "js_file list \<Rightarrow> page \<Rightarrow> page" where
  "photo_change fs s = handlePhotoPreview (s\<lparr>form := (form s)\<lparr>photo := fs\<rparr>\<rparr>)"

text \<open>
  \<open>reader.onload\<close> of the \<open>i\<close>-th reader still in flight: an \<open>img\<close> with the file's data URL is
  appended to the container. Readers finish in any order, and none is ever cancelled.
\<close>

definition reader_onload :: "nat \<Rightarrow> page \<Rightarrow> page" where
  "reader_onload i s =
     (if i < length (readers s)
      then s\<lparr>readers := take i (readers s) @ drop (Suc i) (readers s),
             photo_preview := photo_preview s @ [file_dataURL (readers s ! i)]\<rparr>
      else s)"

subsection \<open>Submitting a report\<close>

text \<open>
  Modelled from the spec: the page's markup, which gives the form controls their default
  values, is not among the sources; the spec says that a reset leaves the form empty.
\<close>

definition form_defaults :: form where
  "form_defaults =
     \<lparr>issueType = '''', description = '''', location = '''', reporterName = '''',
      reporterEmail = '''', reporterPhone = '''', photo = []\<rparr>"

definition showSuccessModal :: "string \<Rightarrow> page \<Rightarrow> page" where
  "showSuccessModal reportId s = s\<lparr>report_id_text := reportId, success_modal_hidden := False\<rparr>"

definition closeModal :: "page \<Rightarrow> page" where
  "closeModal s = s\<lparr>success_modal_hidden := True\<rparr>"

text \<open>The payload collected from the form and the current selection at \<open>ts\<close>, the time of the submit.\<close>

definition collect :: "string \<Rightarrow> page \<Rightarrow> reportData" where
  "collect ts s =
     \<lparr>issueType = issueType (form s), description = description (form s),
      location = location (form s), reporterName = reporterName (form s),
      reporterEmail = reporterEmail (form s), reporterPhone = reporterPhone (form s),
      coordinates = selectedLocation s, timestamp = ts, status = ''pending''\<rparr>"

text \<open>The \<open>catch\<close> block of \<open>handleReportSubmission\<close>; \<open>now\<close> is \<open>Date.now()\<close>.\<close>

definition submission_catch :: "int \<Rightarrow> page \<Rightarrow> page" where
  "submission_catch now s =
     (let s1 = s\<lparr>console := console s @ [''Error:'']\<rparr>;
          reportId = ''RPT'' @ number_text now;
          s2 = showSuccessModal reportId s1
      in s2\<lparr>form := form_defaults, photo_preview := []\<rparr>)"

text \<open>
  \<open>handleReportSubmission\<close>: \<open>ts\<close> is \<open>new Date().toISOString()\<close>, \<open>r\<close> what the POST gives
  (the body of a response is the text of its \<open>reportId\<close>), \<open>now\<close> the clock in the \<open>catch\<close> block.
\<close>

definition handleReportSubmission :: "string \<Rightarrow> string fetched \<Rightarrow> int \<Rightarrow> page \<Rightarrow> page" where
  "handleReportSubmission ts r now s =
     (let s0 = s\<lparr>requests := requests s @ [PostReports (collect ts s) (photo (form s))]\<rparr>
      in case r of
           Throws \<Rightarrow> submission_catch now s0
         | Response code body \<Rightarrow>
             if ok code then
               (case body of
                  None \<Rightarrow> submission_catch now s0
                | Some reportId \<Rightarrow>
                    (let s1 = showSuccessModal reportId s0;
                         s2 = s1\<lparr>form := form_defaults, photo_preview := []\<rparr>
                     in case marker s2 of
                          Some m \<Rightarrow> s2\<lparr>map_layers := removeLayer m (map_layers s2)\<rparr>
                        | None \<Rightarrow> s2))
             else s0\<lparr>alerts := alerts s0 @ [''Error submitting report. Please try again.'']\<rparr>)"

subsection \<open>Search and the list of reports\<close>

text \<open>\<open>createReportElement\<close>; the last line is there when \<open>report.lastUpdate\<close> is truthy.\<close>

definition createReportElement :: "report \<Rightarrow> report_item" where
  "createReportElement r =
     \<lparr>item_id = report_id r,
      item_status_class = report_status r,
      item_status = toUpperCase (report_status r),
      item_heading = toUpperCase (replace (report_issueType r) ''-'' '' ''),
      item_location = report_location r,
      item_description = report_description r,
      item_reported = report_timestamp r,
      item_lastUpdate =
        (case report_lastUpdate r of
           Some u \<Rightarrow> if u \<noteq> [] then Some u else None
         | None \<Rightarrow> None)\<rparr>"

definition displayReports :: "report list \<Rightarrow> page \<Rightarrow> page" where
  "displayReports reports s = s\<lparr>reports_list := map createReportElement reports\<rparr>"

definition demoReports :: "report list" where
  "demoReports =
     [\<lparr>report_id = ''RPT1234567890'',
       report_issueType = ''road-damage'',
       report_description = ''Large pothole on Main Street causing traffic issues'',
       report_location = ''Main Street, Downtown'',
       report_status = ''in-progress'',
       report_timestamp = ''2024-01-15T10:30:00Z'',
       report_lastUpdate = Some ''Work crew assigned, repair scheduled for next week''\<rparr>,
      \<lparr>report_id = ''RPT1234567891'',
       report_issueType = ''water-leak'',
       report_description = ''Water leak near the park entrance'',
       report_location = ''Central Park Entrance'',
       report_status = ''resolved'',
       report_timestamp = ''2024-01-10T14:20:00Z'',
       report_lastUpdate = Some ''Leak repaired successfully''\<rparr>]"

definition displayDemoReports :: "page \<Rightarrow> page" where
  "displayDemoReports s = displayReports demoReports s"

text \<open>The \<open>catch\<close> block of \<open>searchReports\<close>.\<close>

definition search_catch :: "page \<Rightarrow> page" where
  "search_catch s = displayDemoReports (s\<lparr>console := console s @ [''Error searching reports:'']\<rparr>)"

text \<open>
  \<open>searchReports\<close>; \<open>r\<close> is what the GET gives. With an empty term the function returns before
  the \<open>try\<close>. A response that is not ok meets no \<open>else\<close> branch.
\<close>

definition searchReports :: "report list fetched \<Rightarrow> page \<Rightarrow> page" where
  "searchReports r s =
     (let searchTerm = search_input s in
      if searchTerm = [] then s
      else
        (let s0 = s\<lparr>requests := requests s @ [GetSearch searchTerm]\<rparr>
         in case r of
              Throws \<Rightarrow> search_catch s0
            | Response code body \<Rightarrow>
                if ok code then
                  (case body of
                     None \<Rightarrow> search_catch s0
                   | Some reports \<Rightarrow> displayReports reports s0)
                else s0))"

subsection \<open>The dashboard\<close>

definition updateDashboard :: "stats \<Rightarrow> page \<Rightarrow> page" where
  "updateDashboard st s =
     s\<lparr>total_reports := number_text (total st),
       pending_reports := number_text (pending st),
       in_progress_reports := number_text (inProgress st),
       resolved_reports := number_text (resolved st)\<rparr>"

text \<open>The \<open>catch\<close> block of \<open>loadDashboardData\<close>.\<close>

definition dashboard_catch :: "page \<Rightarrow> page" where
  "dashboard_catch s =
     updateDashboard \<lparr>total = 156, pending = 23, inProgress = 45, resolved = 88\<rparr>
       (s\<lparr>console := console s @ [''Error loading dashboard:'']\<rparr>)"

text \<open>\<open>loadDashboardData\<close>; as in the search, a response that is not ok meets no \<open>else\<close> branch.\<close>

definition loadDashboardData :: "stats fetched \<Rightarrow> page \<Rightarrow> page" where
  "loadDashboardData r s =
     (let s0 = s\<lparr>requests := requests s @ [GetStats]\<rparr>
      in case r of
           Throws \<Rightarrow> dashboard_catch s0
         | Response code body \<Rightarrow>
             if ok code then
               (case body of
                  None \<Rightarrow> dashboard_catch s0
                | Some st \<Rightarrow> updateDashboard st s0)
             else s0)"

subsection \<open>The page as a whole\<close>

text \<open>
  What can happen to the page: the user clicks the map, edits the text controls or the search
  box, picks files, submits, searches, closes the modal; a file reader finishes; the
  dashboard is loaded.
\<close>

datatype event =
    MapClick latlng
  | Input fields
  | SearchInput string
  | PhotoChange "js_file list"
  | ReaderLoad nat
  | Submit string "string fetched" int
  | Search "report list fetched"
  | DashboardLoad "stats fetched"
  | CloseModal

definition user_input :: "fields \<Rightarrow> page \<Rightarrow> page" where
  "user_input v s =
     s\<lparr>form := \<lparr>issueType = issueType v, description = description v, location = location v,
                 reporterName = reporterName v, reporterEmail = reporterEmail v,
                 reporterPhone = reporterPhone v, photo = photo (form s)\<rparr>\<rparr>"

fun step :: "event \<Rightarrow> page \<Rightarrow> page" where
  "step (MapClick e) s = map_click e s"
| "step (Input v) s = user_input v s"
| "step (SearchInput t) s = s\<lparr>search_input := t\<rparr>"
| "step (PhotoChange fs) s = photo_change fs s"
| "step (ReaderLoad i) s = reader_onload i s"
| "step (Submit ts r now) s = handleReportSubmission ts r now s"
| "step (Search r) s = searchReports r s"
| "step (DashboardLoad r) s = loadDashboardData r s"
| "step CloseModal s = closeModal s"

definition run :: "event list \<Rightarrow> page \<Rightarrow> page" where
  "run es s = fold step es s"

text \<open>
  The page when the script has been loaded and \<open>initializeMap\<close> has run: no marker, no
  selection, a map without markers, nothing read, sent, alerted or logged yet. What the
  controls and the dashboard show then is up to the markup.
\<close>

definition initial :: "page \<Rightarrow> bool" where
  "initial s =
     (marker s = None \<and> selectedLocation s = None \<and> map_layers s = [] \<and>
      layers_created s = 0 \<and> readers s = [] \<and> requests s = [] \<and> alerts s = [] \<and>
      console s = [])"

text \<open>An initial page, with an empty form and a dashboard of zeros.\<close>

definition blank_page :: page where
  "blank_page =
     \<lparr>marker = None, selectedLocation = None, map_layers = [], layers_created = 0,
      form = form_defaults, photo_preview = [], readers = [], report_id_text = '''',
      success_modal_hidden = True, alerts = [], console = [], search_input = '''',
      reports_list = [], total_reports = ''0'', pending_reports = ''0'',
      in_progress_reports = ''0'', resolved_reports = ''0'', requests = []\<rparr>"

text \<open>Every marker on the map is the one the global \<open>marker\<close> holds.\<close>

definition marker_inv :: "page \<Rightarrow> bool" where
  "marker_inv s = list_all (\<lambda>l. marker s = Some l) (map_layers s)"

subsection \<open>Notions the properties below are stated with\<close>

text \<open>
  The issue-type label as the specification words it: every hyphen becomes a space, and the
  result is upper-cased.
\<close>

definition label_spec :: "string \<Rightarrow> string" where
  "label_spec t = toUpperCase (map (\<lambda>c. if c = CHR ''-'' then CHR '' '' else c) t)"

text \<open>A text of the form \<open>RPT\<close> followed by one or more decimal digits.\<close>

definition rpt_digits :: "string \<Rightarrow> bool" where
  "rpt_digits t = (startsWith t ''RPT'' \<and> drop 3 t \<noteq> [] \<and> list_all is_digit (drop 3 t))"

text \<open>
  A text in fixed-point notation with \<open>f\<close> decimal places: an optional minus sign, one or more
  digits, a point, and exactly \<open>f\<close> digits.
\<close>

definition decimal_places :: "nat \<Rightarrow> string \<Rightarrow> bool" where
  "decimal_places f t =
     (let b = (if startsWith t ''-'' then drop 1 t else t); k = length b
      in f + 2 \<le> k \<and> list_all is_digit (take (k - f - 1) b) \<and>
         b ! (k - f - 1) = CHR ''.'' \<and> list_all is_digit (drop (k - f) b))"

text \<open>
  The number a fixed-point text denotes: the digits before and after the point, read as one
  natural number, over ten to the number of digits after the point, with the sign.
\<close>

definition digit_value :: "char \<Rightarrow> nat" where
  "digit_value c = of_char c - 48"

definition digits_value :: "string \<Rightarrow> nat" where
  "digits_value t = foldl (\<lambda>a c. 10 * a + digit_value c) 0 t"

definition read_decimal :: "string \<Rightarrow> real" where
  "read_decimal t =
     (let b = (if startsWith t ''-'' then drop 1 t else t);
          ip = takeWhile (\<lambda>c. c \<noteq> CHR ''.'') b;
          fp = drop 1 (dropWhile (\<lambda>c. c \<noteq> CHR ''.'') b);
          v = real (digits_value (ip @ fp)) / 10 ^ length fp
      in if startsWith t ''-'' then - v else v)"

text \<open>The coordinates a request carries (none unless it is a submission with a selection).\<close>

fun request_coordinates :: "request \<Rightarrow> latlng option" where
  "request_coordinates (PostReports d fs) = coordinates d"
| "request_coordinates (GetSearch t) = None"
| "request_coordinates GetStats = None"

text \<open>The four fields of the dashboard, in the order total, pending, in progress, resolved.\<close>

definition dashboard :: "page \<Rightarrow> string list" where
  "dashboard s = [total_reports s, pending_reports s, in_progress_reports s, resolved_reports s]"

section \<open>Digits\<close>

lemma digits_lt10: "n < 10 \<Longrightarrow> digits n = [digit_char n]"
  by (simp add: digits.simps)

lemma digits_ge10: "10 \<le> n \<Longrightarrow> digits n = digits (n div 10) @ [digit_char (n mod 10)]"
  by (subst digits.simps) simp

lemma digit_char_values:
  "digit_char 0 = CHR ''0''" "digit_char 1 = CHR ''1''" "digit_char (Suc 0) = CHR ''1''"
  "digit_char 2 = CHR ''2''" "digit_char 3 = CHR ''3''" "digit_char 4 = CHR ''4''"
  "digit_char 5 = CHR ''5''" "digit_char 6 = CHR ''6''" "digit_char 7 = CHR ''7''"
  "digit_char 8 = CHR ''8''" "digit_char 9 = CHR ''9''"
  by code_simp+

lemma is_digit_digit_char: "d < 10 \<Longrightarrow> is_digit (digit_char d)"
  by (simp add: is_digit_def digit_char_def)

lemma digits_not_Nil: "digits n \<noteq> []"
  by (subst digits.simps) simp

lemma digits_all_digit: "list_all is_digit (digits n)"
proof (induction n rule: digits.induct)
  case (1 n)
  show ?case
  proof (cases "n < 10")
    case True
    then show ?thesis by (simp add: digits_lt10 is_digit_digit_char)
  next
    case False
    then have "list_all is_digit (digits (n div 10))" using 1 by simp
    moreover have "is_digit (digit_char (n mod 10))" by (simp add: is_digit_digit_char)
    ultimately show ?thesis using False by (simp add: digits_ge10)
  qed
qed

lemma rpt_digits_number_text:
  "0 \<le> i \<Longrightarrow> rpt_digits (CHR ''R'' # CHR ''P'' # CHR ''T'' # number_text i)"
  by (simp add: rpt_digits_def startsWith_def number_text_def digits_not_Nil digits_all_digit)

lemma number_text_example: "number_text 1705314600000 = ''1705314600000''"
  by (simp add: number_text_def digits_lt10 digits_ge10 digit_char_values)

lemma is_digit_not_minus: "is_digit c \<Longrightarrow> c \<noteq> CHR ''-''"
  by (auto simp: is_digit_def)

section \<open>Issue-type labels\<close>

lemma replace_dash_first:
  "replace (xs @ CHR ''-'' # ys) ''-'' '' '' = xs @ CHR '' '' # ys" if "CHR ''-'' \<notin> set xs"
  using that
proof (induction xs)
  case Nil
  show ?case by (subst replace.simps) (simp add: startsWith_def)
next
  case (Cons x xs)
  then show ?case by (subst replace.simps) (auto simp: startsWith_def)
qed

lemma replace_no_dash: "replace xs ''-'' '' '' = xs" if "CHR ''-'' \<notin> set xs"
  using that
proof (induction xs)
  case Nil
  show ?case by (subst replace.simps) (simp add: startsWith_def)
next
  case (Cons x xs)
  then show ?case by (subst replace.simps) (auto simp: startsWith_def)
qed

text \<open>
  The heading of a rendered report agrees with the specification's label when the issue type
  has at most one hyphen: \<open>replace\<close> with a string pattern stops after the first match.
\<close>

lemma heading_one_hyphen:
  assumes "CHR ''-'' \<notin> set xs" and "CHR ''-'' \<notin> set ys"
  shows "item_heading (createReportElement (r\<lparr>report_issueType := xs @ ''-'' @ ys\<rparr>)) =
         label_spec (xs @ ''-'' @ ys)"
proof -
  have "map (\<lambda>c. if c = CHR ''-'' then CHR '' '' else c) zs = zs" if "CHR ''-'' \<notin> set zs" for zs
    using that by (induction zs) auto
  then show ?thesis
    using assms by (simp add: createReportElement_def label_spec_def replace_dash_first)
qed

text \<open>
  C6. The claim: the displayed issue-type label is the stored value with every hyphen replaced
  by a space, upper-cased, also when the value has more than one hyphen; the stored value is
  not changed. What \<open>createReportElement\<close> does with the issue type \<open>street-light-out\<close>: only the
  first hyphen becomes a space, the heading reads \<open>STREET LIGHT-OUT\<close>, where the label of the
  claim is \<open>STREET LIGHT OUT\<close>.
\<close>

theorem createReportElement_heading_second_hyphen_kept:
  "item_heading (createReportElement
     \<lparr>report_id = ''RPT1'', report_issueType = ''street-light-out'',
      report_description = ''Lamp is off'', report_location = ''Elm Street'',
      report_status = ''pending'', report_timestamp = ''2024-01-15T10:30:00Z'',
      report_lastUpdate = None\<rparr>) = ''STREET LIGHT-OUT''
   \<and> label_spec ''street-light-out'' = ''STREET LIGHT OUT''"
  by code_simp

section \<open>Searching\<close>

text \<open>
  C9. A search with an empty search term issues no request and leaves the displayed list of
  reports (and the rest of the page) as it was, whatever the network would have answered.
\<close>

theorem searchReports_empty_term:
  "search_input s = [] \<Longrightarrow>
     requests (searchReports r s) = requests s \<and>
     reports_list (searchReports r s) = reports_list s \<and>
     searchReports r s = s"
  by (simp add: searchReports_def)

theorem searchReports_empty_term_witness:
  "search_input blank_page = [] \<and>
   requests (searchReports Throws blank_page) = [] \<and>
   reports_list (searchReports Throws blank_page) = [] \<and>
   searchReports Throws blank_page = blank_page"
  using searchReports_empty_term [of blank_page Throws] by (simp add: blank_page_def)

section \<open>Submitting\<close>

lemma submission_catch_simps:
  "report_id_text (submission_catch now s) = ''RPT'' @ number_text now"
  "success_modal_hidden (submission_catch now s) = False"
  "form (submission_catch now s) = form_defaults"
  "photo_preview (submission_catch now s) = []"
  "map_layers (submission_catch now s) = map_layers s"
  "marker (submission_catch now s) = marker s"
  "selectedLocation (submission_catch now s) = selectedLocation s"
  "requests (submission_catch now s) = requests s"
  by (simp_all add: submission_catch_def showSuccessModal_def)

text \<open>
  C5. When the POST is answered with a status that is not a success, the page shows the alert
  and nothing else changes: the form (text controls and selected files), the previews, the
  markers on the map, the global marker, the stored selection and the modal are what they were
  before the submit. Only the alert and the log of sent requests differ.
\<close>

theorem handleReportSubmission_not_ok:
  "\<not> ok code \<Longrightarrow>
     (let s' = handleReportSubmission ts (Response code body) now s
      in alerts s' = alerts s @ [''Error submitting report. Please try again.''] \<and>
         form s' = form s \<and> photo_preview s' = photo_preview s \<and>
         map_layers s' = map_layers s \<and> marker s' = marker s \<and>
         selectedLocation s' = selectedLocation s \<and>
         success_modal_hidden s' = success_modal_hidden s \<and>
         report_id_text s' = report_id_text s \<and>
         s' = s\<lparr>requests := requests s', alerts := alerts s'\<rparr>)"
  by (simp add: handleReportSubmission_def Let_def)

theorem handleReportSubmission_not_ok_witness:
  "\<not> ok 500 \<and>
   alerts (handleReportSubmission ''2024-01-15T10:30:00.000Z'' (Response 500 None) 0 blank_page) =
     [''Error submitting report. Please try again.''] \<and>
   form (handleReportSubmission ''2024-01-15T10:30:00.000Z'' (Response 500 None) 0 blank_page) =
     form blank_page \<and>
   photo_preview (handleReportSubmission ''2024-01-15T10:30:00.000Z'' (Response 500 None) 0 blank_page) =
     [] \<and>
   map_layers (handleReportSubmission ''2024-01-15T10:30:00.000Z'' (Response 500 None) 0 blank_page) =
     [] \<and>
   success_modal_hidden
     (handleReportSubmission ''2024-01-15T10:30:00.000Z'' (Response 500 None) 0 blank_page)"
  using handleReportSubmission_not_ok
    [of 500 "''2024-01-15T10:30:00.000Z''" None 0 blank_page]
  by (simp add: ok_def Let_def blank_page_def)

text \<open>
  C10. A response with a success status whose body cannot be read as JSON ends in the
  \<open>catch\<close> block, exactly as a fetch that throws: the modal shows \<open>RPT\<close> followed by the
  clock's reading instead of an identifier of the server, the form is reset (every control
  empty, no file selected), the previews are removed, and the markers on the map and the
  global marker stay as they were.
\<close>

theorem handleReportSubmission_unreadable_body:
  "ok code \<Longrightarrow>
     handleReportSubmission ts (Response code None) now s =
       handleReportSubmission ts Throws now s \<and>
     (let s' = handleReportSubmission ts (Response code None) now s
      in report_id_text s' = ''RPT'' @ number_text now \<and>
         \<not> success_modal_hidden s' \<and>
         form s' = \<lparr>issueType = '''', description = '''', location = '''', reporterName = '''',
                     reporterEmail = '''', reporterPhone = '''', photo = []\<rparr> \<and>
         photo_preview s' = [] \<and>
         map_layers s' = map_layers s \<and> marker s' = marker s)"
  by (simp add: handleReportSubmission_def Let_def submission_catch_simps form_defaults_def)

theorem handleReportSubmission_unreadable_body_witness:
  "ok 200 \<and>
   handleReportSubmission ''2024-01-15T10:30:00.000Z'' (Response 200 None) 1705314600000 blank_page =
     handleReportSubmission ''2024-01-15T10:30:00.000Z'' Throws 1705314600000 blank_page \<and>
   report_id_text
     (handleReportSubmission ''2024-01-15T10:30:00.000Z'' (Response 200 None) 1705314600000 blank_page) =
     ''RPT1705314600000'' \<and>
   \<not> success_modal_hidden
     (handleReportSubmission ''2024-01-15T10:30:00.000Z'' (Response 200 None) 1705314600000 blank_page)"
proof -
  have c: "ok 200" by (simp add: ok_def)
  show ?thesis
    using c handleReportSubmission_unreadable_body
      [OF c, of "''2024-01-15T10:30:00.000Z''" 1705314600000 blank_page]
    unfolding Let_def number_text_example by auto
qed

text \<open>
  C4. When the fetch of a submission throws, the modal shows \<open>RPT\<close> followed by the digits of
  the clock's reading (milliseconds since the epoch, so not negative), the form is reset
  (every control empty, no file selected), the previews are removed, and the markers on the
  map and the global marker stay as they were.
\<close>

theorem handleReportSubmission_throws:
  "0 \<le> now \<Longrightarrow>
     (let s' = handleReportSubmission ts Throws now s
      in rpt_digits (report_id_text s') \<and>
         report_id_text s' = ''RPT'' @ number_text now \<and>
         \<not> success_modal_hidden s' \<and>
         form s' = \<lparr>issueType = '''', description = '''', location = '''', reporterName = '''',
                     reporterEmail = '''', reporterPhone = '''', photo = []\<rparr> \<and>
         photo_preview s' = [] \<and>
         map_layers s' = map_layers s \<and> marker s' = marker s)"
  by (simp add: handleReportSubmission_def Let_def submission_catch_simps form_defaults_def
      rpt_digits_number_text)

theorem handleReportSubmission_throws_witness:
  "(0::int) \<le> 1705314600000 \<and>
   rpt_digits (report_id_text
     (handleReportSubmission ''2024-01-15T10:30:00.000Z'' Throws 1705314600000 blank_page)) \<and>
   report_id_text
     (handleReportSubmission ''2024-01-15T10:30:00.000Z'' Throws 1705314600000 blank_page) =
     ''RPT1705314600000'' \<and>
   form (handleReportSubmission ''2024-01-15T10:30:00.000Z'' Throws 1705314600000 blank_page) =
     form_defaults \<and>
   photo_preview
     (handleReportSubmission ''2024-01-15T10:30:00.000Z'' Throws 1705314600000 blank_page) = []"
proof -
  have c: "(0::int) \<le> 1705314600000" by simp
  show ?thesis
    using handleReportSubmission_throws [OF c, of "''2024-01-15T10:30:00.000Z''" blank_page]
    by (simp add: Let_def form_defaults_def number_text_example rpt_digits_def startsWith_def
        is_digit_def)
qed

section \<open>Fallbacks of the dashboard and of the search\<close>

lemma fallback_texts:
  "number_text 156 = ''156''" "number_text 23 = ''23''" "number_text 45 = ''45''"
  "number_text 88 = ''88''"
  by (simp_all add: number_text_def digits_lt10 digits_ge10 digit_char_values)

lemma dashboard_catch_dashboard: "dashboard (dashboard_catch s) = [''156'', ''23'', ''45'', ''88'']"
  by (simp add: dashboard_catch_def updateDashboard_def dashboard_def fallback_texts)

lemma demo_items:
  "map item_id (map createReportElement demoReports) = [''RPT1234567890'', ''RPT1234567891'']"
  "map item_heading (map createReportElement demoReports) = [''ROAD DAMAGE'', ''WATER LEAK'']"
  "map item_status (map createReportElement demoReports) = [''IN-PROGRESS'', ''RESOLVED'']"
  by code_simp+

lemma search_catch_list: "reports_list (search_catch s) = map createReportElement demoReports"
  by (simp add: search_catch_def displayDemoReports_def displayReports_def)

text \<open>
  C2, as claimed, fails: a stats request answered with status 500 writes nothing. On a page
  whose dashboard shows zeros before the load, it shows zeros after it, not 156, 23, 45
  and 88.
\<close>

theorem loadDashboardData_status_500_counterexample:
  "dashboard (loadDashboardData (Response 500 None) blank_page) = [''0'', ''0'', ''0'', ''0''] \<and>
   dashboard (loadDashboardData (Response 500 None) blank_page) \<noteq> [''156'', ''23'', ''45'', ''88'']"
  by (simp add: loadDashboardData_def ok_def dashboard_def blank_page_def)

text \<open>
  C2, amended. When the stats request throws, the four fields of the dashboard show exactly
  the counts 156, 23, 45 and 88; when it is answered with a status that is not a success,
  the four fields are left as they were.
\<close>

theorem loadDashboardData_fallback:
  "\<not> ok code \<Longrightarrow>
     dashboard (loadDashboardData Throws s) = [''156'', ''23'', ''45'', ''88''] \<and>
     total_reports (loadDashboardData Throws s) = ''156'' \<and>
     pending_reports (loadDashboardData Throws s) = ''23'' \<and>
     in_progress_reports (loadDashboardData Throws s) = ''45'' \<and>
     resolved_reports (loadDashboardData Throws s) = ''88'' \<and>
     dashboard (loadDashboardData (Response code body) s) = dashboard s"
  using dashboard_catch_dashboard [of "s\<lparr>requests := requests s @ [GetStats]\<rparr>"]
  by (simp add: loadDashboardData_def dashboard_def)

theorem loadDashboardData_fallback_witness:
  "\<not> ok 503 \<and>
   dashboard (loadDashboardData Throws blank_page) = [''156'', ''23'', ''45'', ''88''] \<and>
   dashboard (loadDashboardData (Response 503 None) blank_page) = [''0'', ''0'', ''0'', ''0'']"
proof -
  have c: "\<not> ok 503" by (simp add: ok_def)
  have "dashboard blank_page = [''0'', ''0'', ''0'', ''0'']"
    by (simp add: dashboard_def blank_page_def)
  then show ?thesis
    using c loadDashboardData_fallback [OF c, of blank_page None] by simp
qed

text \<open>
  C3, as claimed, fails: with the term \<open>pothole\<close> in the search box, let a first search be
  answered with an empty array (the list is then empty) and a second one with status 500:
  the list is still empty, the two demo reports are not shown.
\<close>

theorem searchReports_status_500_counterexample:
  "search_input (searchReports (Response 200 (Some [])) (blank_page\<lparr>search_input := ''pothole''\<rparr>)) \<noteq> [] \<and>
   reports_list (searchReports (Response 500 None)
     (searchReports (Response 200 (Some [])) (blank_page\<lparr>search_input := ''pothole''\<rparr>))) = [] \<and>
   map item_id (reports_list (searchReports (Response 500 None)
     (searchReports (Response 200 (Some [])) (blank_page\<lparr>search_input := ''pothole''\<rparr>)))) \<noteq>
     [''RPT1234567890'', ''RPT1234567891'']"
  by (simp add: searchReports_def ok_def blank_page_def Let_def displayReports_def)

text \<open>
  C3, amended. For a search with a non-empty term: when the search request throws, the
  displayed list is replaced by exactly the two fixed demo reports, whose identifiers are
  RPT1234567890 and RPT1234567891; when it is answered with a status that is not a success,
  the displayed list is left as it was.
\<close>

theorem searchReports_fallback:
  "search_input s \<noteq> [] \<Longrightarrow> \<not> ok code \<Longrightarrow>
     reports_list (searchReports Throws s) = map createReportElement demoReports \<and>
     map item_id (reports_list (searchReports Throws s)) = [''RPT1234567890'', ''RPT1234567891''] \<and>
     reports_list (searchReports (Response code body) s) = reports_list s"
  by (simp add: searchReports_def search_catch_list demo_items del: map_map)

theorem searchReports_fallback_witness:
  "search_input (blank_page\<lparr>search_input := ''pothole''\<rparr>) \<noteq> [] \<and> \<not> ok 500 \<and>
   map item_id (reports_list (searchReports Throws (blank_page\<lparr>search_input := ''pothole''\<rparr>))) =
     [''RPT1234567890'', ''RPT1234567891''] \<and>
   reports_list (searchReports (Response 500 None) (blank_page\<lparr>search_input := ''pothole''\<rparr>)) = []"
proof -
  have t: "search_input (blank_page\<lparr>search_input := ''pothole''\<rparr>) \<noteq> []" by simp
  have c: "\<not> ok 500" by (simp add: ok_def)
  have "reports_list (blank_page\<lparr>search_input := ''pothole''\<rparr>) = []"
    by (simp add: blank_page_def)
  then show ?thesis
    using t c searchReports_fallback [OF t c, of None] by (simp add: demo_items del: map_map)
qed

section \<open>Fixed-point texts\<close>

lemma list_all_take_drop:
  "list_all P xs \<Longrightarrow> list_all P (take n xs) \<and> list_all P (drop n xs)"
  by (auto simp: list_all_iff dest: in_set_takeD in_set_dropD)

lemma decimal_places_body:
  assumes "list_all is_digit m" and "f < length m"
  shows "decimal_places f (take (length m - f) m @ CHR ''.'' # drop (length m - f) m)"
    and "decimal_places f (CHR ''-'' # take (length m - f) m @ CHR ''.'' # drop (length m - f) m)"
proof -
  define a where "a = take (length m - f) m"
  define b where "b = drop (length m - f) m"
  define t where "t = a @ CHR ''.'' # b"
  have la: "length a = length m - f" and lb: "length b = f"
    using assms(2) by (simp_all add: a_def b_def)
  have da: "list_all is_digit a" and db: "list_all is_digit b"
    using assms(1) list_all_take_drop unfolding a_def b_def by blast+
  have "a \<noteq> []" using assms(2) la by auto
  then obtain c cs where a: "a = c # cs" by (cases a) auto
  then have "is_digit c" using da by simp
  then have "c \<noteq> CHR ''-''" by (rule is_digit_not_minus)
  then have nominus: "\<not> startsWith t ''-''"
    by (simp add: startsWith_def a t_def)
  have len: "length t = Suc (length a + f)"
    by (simp add: t_def lb)
  have i1: "length t - f - 1 = length a" and i2: "length t - f = Suc (length a)"
    unfolding len by simp_all
  have "take (length a) t = a" and "t ! length a = CHR ''.''" and "drop (Suc (length a)) t = b"
    by (simp_all add: t_def)
  then have core: "f + 2 \<le> length t \<and> list_all is_digit (take (length t - f - 1) t) \<and>
      t ! (length t - f - 1) = CHR ''.'' \<and> list_all is_digit (drop (length t - f) t)"
    unfolding i1 i2 using da db len a by simp
  have "decimal_places f t"
    unfolding decimal_places_def Let_def using nominus core by simp
  then show "decimal_places f (take (length m - f) m @ CHR ''.'' # drop (length m - f) m)"
    by (simp add: t_def a_def b_def)
  have "decimal_places f (CHR ''-'' # t)"
    unfolding decimal_places_def Let_def using core by (simp add: startsWith_def)
  then show "decimal_places f
      (CHR ''-'' # take (length m - f) m @ CHR ''.'' # drop (length m - f) m)"
    by (simp add: t_def a_def b_def)
qed

lemma decimal_places_toFixed: "0 < f \<Longrightarrow> decimal_places f (toFixed x f)"
proof -
  assume f: "0 < f"
  define d where "d = digits (nat \<lfloor>\<bar>x\<bar> * 10 ^ f + 1 / 2\<rfloor>)"
  define m where "m = (if length d \<le> f then replicate (f + 1 - length d) (CHR ''0'') @ d else d)"
  have "list_all is_digit d" unfolding d_def by (rule digits_all_digit)
  moreover have "is_digit (CHR ''0'')" by (simp add: is_digit_def)
  ultimately have dm: "list_all is_digit m"
    unfolding m_def by (simp add: list_all_iff)
  have lm: "f < length m" unfolding m_def by auto
  have "toFixed x f =
      (if x < 0 then ''-'' else '''') @ take (length m - f) m @ CHR ''.'' # drop (length m - f) m"
    using f unfolding toFixed_def Let_def m_def d_def by simp
  then show ?thesis
    using decimal_places_body [OF dm lm] by simp
qed

lemma digit_value_digit_char: "d < 10 \<Longrightarrow> digit_value (digit_char d) = d"
  by (simp add: digit_value_def digit_char_def)

lemma digits_value_snoc: "digits_value (xs @ [c]) = 10 * digits_value xs + digit_value c"
  by (simp add: digits_value_def)

lemma digits_value_digits: "digits_value (digits n) = n"
proof (induction n rule: digits.induct)
  case (1 n)
  show ?case
  proof (cases "n < 10")
    case True
    then show ?thesis
      using digits_value_snoc [of "[]" "digit_char n"]
      by (simp add: digits_lt10 digit_value_digit_char digits_value_def)
  next
    case False
    then have "digits_value (digits (n div 10)) = n div 10" using 1 by simp
    then show ?thesis
      using False by (simp add: digits_ge10 digits_value_snoc digit_value_digit_char)
  qed
qed

lemma foldl_zeros:
  "foldl (\<lambda>a c. 10 * a + digit_value c) 0 (replicate k (CHR ''0'')) = 0"
  by (induction k) (simp_all add: digit_value_def)

lemma digits_value_zeros: "digits_value (replicate k (CHR ''0'') @ xs) = digits_value xs"
  by (simp add: digits_value_def foldl_zeros)

lemma is_digit_not_point: "is_digit c \<Longrightarrow> c \<noteq> CHR ''.''"
  by (auto simp: is_digit_def)

lemma read_decimal_body:
  assumes "list_all is_digit m" and "f < length m"
  shows "read_decimal (take (length m - f) m @ CHR ''.'' # drop (length m - f) m) =
           real (digits_value m) / 10 ^ f"
    and "read_decimal (CHR ''-'' # take (length m - f) m @ CHR ''.'' # drop (length m - f) m) =
           - (real (digits_value m) / 10 ^ f)"
proof -
  define a where "a = take (length m - f) m"
  define b where "b = drop (length m - f) m"
  define t where "t = a @ CHR ''.'' # b"
  have lb: "length b = f" using assms(2) by (simp add: b_def)
  have ab: "a @ b = m" by (simp add: a_def b_def)
  have da: "list_all is_digit a"
    using assms(1) list_all_take_drop unfolding a_def by blast
  then have np: "\<And>c. c \<in> set a \<Longrightarrow> c \<noteq> CHR ''.''"
    by (auto simp: list_all_iff dest: is_digit_not_point)
  have "a \<noteq> []" using assms(2) by (auto simp: a_def)
  then obtain c cs where a: "a = c # cs" by (cases a) auto
  then have "is_digit c" using da by simp
  then have "c \<noteq> CHR ''-''" by (rule is_digit_not_minus)
  then have nominus: "\<not> startsWith t ''-''"
    by (simp add: startsWith_def a t_def)
  have tw: "takeWhile (\<lambda>c. c \<noteq> CHR ''.'') t = a"
    unfolding t_def using np by simp
  have dw: "dropWhile (\<lambda>c. c \<noteq> CHR ''.'') t = CHR ''.'' # b"
    unfolding t_def using np by simp
  have "read_decimal t = real (digits_value m) / 10 ^ f"
    unfolding read_decimal_def Let_def using nominus by (simp add: tw dw ab lb)
  then show "read_decimal (take (length m - f) m @ CHR ''.'' # drop (length m - f) m) =
      real (digits_value m) / 10 ^ f"
    by (simp add: t_def a_def b_def)
  have "read_decimal (CHR ''-'' # t) = - (real (digits_value m) / 10 ^ f)"
    unfolding read_decimal_def Let_def by (simp add: startsWith_def tw dw ab lb)
  then show "read_decimal (CHR ''-'' # take (length m - f) m @ CHR ''.'' # drop (length m - f) m) =
      - (real (digits_value m) / 10 ^ f)"
    by (simp add: t_def a_def b_def)
qed

lemma read_decimal_toFixed:
  assumes f: "0 < f"
  shows "read_decimal (toFixed x f) =
           (if x < 0 then - 1 else 1) * real (nat \<lfloor>\<bar>x\<bar> * 10 ^ f + 1 / 2\<rfloor>) / 10 ^ f"
proof -
  define n where "n = nat \<lfloor>\<bar>x\<bar> * 10 ^ f + 1 / 2\<rfloor>"
  define d where "d = digits n"
  define m where "m = (if length d \<le> f then replicate (f + 1 - length d) (CHR ''0'') @ d else d)"
  have "list_all is_digit d" unfolding d_def by (rule digits_all_digit)
  moreover have "is_digit (CHR ''0'')" by (simp add: is_digit_def)
  ultimately have dm: "list_all is_digit m"
    unfolding m_def by (simp add: list_all_iff)
  have lm: "f < length m" unfolding m_def by auto
  have vm: "digits_value m = n"
    unfolding m_def d_def by (simp add: digits_value_zeros digits_value_digits)
  have "toFixed x f =
      (if x < 0 then ''-'' else '''') @ take (length m - f) m @ CHR ''.'' # drop (length m - f) m"
    using f unfolding toFixed_def Let_def m_def d_def n_def by simp
  then show ?thesis
    using read_decimal_body [OF dm lm] by (simp add: vm n_def)
qed

lemma toFixed_nearest:
  assumes f: "0 < f"
  shows "\<bar>read_decimal (toFixed x f) - x\<bar> \<le> 1 / (2 * 10 ^ f)"
proof -
  define y where "y = \<bar>x\<bar> * 10 ^ f"
  define n where "n = \<lfloor>y + 1 / 2\<rfloor>"
  have y0: "0 \<le> y" by (simp add: y_def)
  then have n0: "0 \<le> n" by (simp add: n_def)
  have "of_int n \<le> y + 1 / 2" and "y + 1 / 2 < of_int n + 1"
    unfolding n_def by linarith+
  then have close: "\<bar>of_int n - y\<bar> \<le> 1 / 2" by linarith
  have rn: "real (nat n) = of_int n" using n0 by simp
  have p: "(10::real) ^ f > 0" by simp
  have "of_int n / 10 ^ f - \<bar>x\<bar> = (of_int n - y) / 10 ^ f"
    unfolding y_def by (simp add: field_simps)
  then have "\<bar>of_int n / 10 ^ f - \<bar>x\<bar>\<bar> = \<bar>of_int n - y\<bar> / 10 ^ f"
    by simp
  also have "\<dots> \<le> (1 / 2) / 10 ^ f"
    by (rule divide_right_mono [OF close]) simp
  finally have main: "\<bar>of_int n / 10 ^ f - \<bar>x\<bar>\<bar> \<le> 1 / (2 * 10 ^ f)" by simp
  have r: "read_decimal (toFixed x f) = (if x < 0 then - 1 else 1) * (of_int n / 10 ^ f)"
    using read_decimal_toFixed [OF f, of x] rn by (simp add: n_def y_def)
  show ?thesis
  proof (cases "x < 0")
    case True
    then have "\<bar>read_decimal (toFixed x f) - x\<bar> = \<bar>of_int n / 10 ^ f - \<bar>x\<bar>\<bar>"
      using r by (simp add: abs_minus_commute)
    then show ?thesis using main by simp
  next
    case False
    then have "\<bar>read_decimal (toFixed x f) - x\<bar> = \<bar>of_int n / 10 ^ f - \<bar>x\<bar>\<bar>"
      using r by simp
    then show ?thesis using main by simp
  qed
qed

section \<open>The map and its marker\<close>

lemma marker_inv_initial: "initial s \<Longrightarrow> marker_inv s"
  by (simp add: initial_def marker_inv_def)

lemma map_click_layers:
  assumes "marker_inv s"
  shows "map_layers (map_click e s) = [\<lparr>layer_id = layers_created s, layer_latlng = e\<rparr>]"
    and "marker (map_click e s) = Some \<lparr>layer_id = layers_created s, layer_latlng = e\<rparr>"
proof -
  have "(case marker s of Some m \<Rightarrow> removeLayer m (map_layers s) | None \<Rightarrow> map_layers s) = []"
  proof (cases "marker s")
    case None
    then show ?thesis using assms by (cases "map_layers s") (simp_all add: marker_inv_def)
  next
    case (Some m)
    then have "\<forall>l \<in> set (map_layers s). l = m"
      using assms by (auto simp: marker_inv_def list_all_iff)
    then show ?thesis using Some by (simp add: removeLayer_def filter_empty_conv)
  qed
  then show "map_layers (map_click e s) = [\<lparr>layer_id = layers_created s, layer_latlng = e\<rparr>]"
    by (simp add: map_click_def Let_def)
  show "marker (map_click e s) = Some \<lparr>layer_id = layers_created s, layer_latlng = e\<rparr>"
    by (simp add: map_click_def Let_def)
qed

lemma map_click_selection:
  "selectedLocation (map_click e s) = Some e"
  "location (form (map_click e s)) = toFixed (lat e) 6 @ '', '' @ toFixed (lng e) 6"
  by (simp_all add: map_click_def Let_def)

lemma marker_inv_step: "marker_inv s \<Longrightarrow> marker_inv (step e s)"
proof (cases e)
  case (MapClick c)
  assume "marker_inv s"
  then show ?thesis using MapClick map_click_layers [of s c] by (simp add: marker_inv_def)
next
  case (Submit ts r now)
  assume inv: "marker_inv s"
  have "marker_inv (s'\<lparr>map_layers := removeLayer m (map_layers s')\<rparr>)"
    if "marker_inv s'" for s' m
    using that by (auto simp: marker_inv_def list_all_iff removeLayer_def)
  then show ?thesis
    using inv Submit
    by (auto simp: handleReportSubmission_def Let_def marker_inv_def submission_catch_def
        showSuccessModal_def removeLayer_def list_all_iff split: fetched.splits option.splits)
qed (auto simp: marker_inv_def user_input_def photo_change_def handlePhotoPreview_def
    reader_onload_def searchReports_def search_catch_def displayDemoReports_def
    displayReports_def loadDashboardData_def dashboard_catch_def updateDashboard_def
    closeModal_def Let_def split: fetched.splits option.splits)

lemma marker_inv_run: "marker_inv s \<Longrightarrow> marker_inv (run es s)"
  unfolding run_def by (induction es arbitrary: s) (simp_all add: marker_inv_step)

lemma marker_inv_clicks: "marker_inv s \<Longrightarrow> marker_inv (fold map_click cs s)"
proof (induction cs arbitrary: s)
  case Nil
  then show ?case by simp
next
  case (Cons c cs)
  have "marker_inv (map_click c s)" using Cons.prems marker_inv_step [of s "MapClick c"] by simp
  then show ?case using Cons.IH by simp
qed

text \<open>
  C7. Take any page reached from an initial one and click the map one or more times (at
  coordinates in the range where \<open>toFixed\<close> uses fixed-point notation). After the last click
  there is exactly one marker on the map, at the coordinate of the last click; it is the
  marker the script holds; the stored selection is that coordinate; and the location control
  reads its latitude, a comma and a blank, and its longitude, each in fixed-point notation
  with six decimal places and within half a unit of the sixth place of the number it shows.
\<close>

theorem map_clicks_one_marker:
  "initial s0 \<Longrightarrow> clicks \<noteq> [] \<Longrightarrow>
   \<bar>lat (last clicks)\<bar> < 10 ^ 21 \<Longrightarrow> \<bar>lng (last clicks)\<bar> < 10 ^ 21 \<Longrightarrow>
     (let s = fold map_click clicks (run es s0)
      in length (map_layers s) = 1 \<and>
         map layer_latlng (map_layers s) = [last clicks] \<and>
         map Some (map_layers s) = [marker s] \<and>
         selectedLocation s = Some (last clicks) \<and>
         location (form s) =
           toFixed (lat (last clicks)) 6 @ '', '' @ toFixed (lng (last clicks)) 6 \<and>
         decimal_places 6 (toFixed (lat (last clicks)) 6) \<and>
         decimal_places 6 (toFixed (lng (last clicks)) 6) \<and>
         \<bar>read_decimal (toFixed (lat (last clicks)) 6) - lat (last clicks)\<bar> \<le> 1 / 2000000 \<and>
         \<bar>read_decimal (toFixed (lng (last clicks)) 6) - lng (last clicks)\<bar> \<le> 1 / 2000000)"
proof -
  assume init: "initial s0" and ne: "clicks \<noteq> []"
  obtain cs c where clicks: "clicks = cs @ [c]"
    using ne by (cases clicks rule: rev_cases) auto
  define s1 where "s1 = fold map_click cs (run es s0)"
  have inv: "marker_inv s1"
    unfolding s1_def using init by (simp add: marker_inv_initial marker_inv_run marker_inv_clicks)
  have s: "fold map_click clicks (run es s0) = map_click c s1"
    by (simp add: clicks s1_def)
  show ?thesis
    unfolding s Let_def
    using map_click_layers [OF inv, of c] map_click_selection [of c s1]
      toFixed_nearest [of 6 "lat c"] toFixed_nearest [of 6 "lng c"]
    by (simp add: clicks decimal_places_toFixed)
qed

lemma toFixed_examples:
  "toFixed (103 / 2) 6 = ''51.500000''" "toFixed (- (1 / 8)) 6 = ''-0.125000''"
  "toFixed (81 / 2) 6 = ''40.500000''" "toFixed (- (297 / 4)) 6 = ''-74.250000''"
  by (simp_all add: toFixed_def Let_def digits_lt10 digits_ge10 digit_char_values)

lemma initial_blank_page: "initial blank_page"
  by (simp add: initial_def blank_page_def)

theorem map_clicks_one_marker_witness:
  "initial blank_page \<and>
   [\<lparr>lat = 103 / 2, lng = - (1 / 8)\<rparr>, \<lparr>lat = 81 / 2, lng = - (297 / 4)\<rparr>] \<noteq> [] \<and>
   \<bar>81 / 2 :: real\<bar> < 10 ^ 21 \<and> \<bar>- (297 / 4) :: real\<bar> < 10 ^ 21 \<and>
   map layer_latlng (map_layers (fold map_click
     [\<lparr>lat = 103 / 2, lng = - (1 / 8)\<rparr>, \<lparr>lat = 81 / 2, lng = - (297 / 4)\<rparr>]
     (run [] blank_page))) = [\<lparr>lat = 81 / 2, lng = - (297 / 4)\<rparr>] \<and>
   selectedLocation (fold map_click
     [\<lparr>lat = 103 / 2, lng = - (1 / 8)\<rparr>, \<lparr>lat = 81 / 2, lng = - (297 / 4)\<rparr>]
     (run [] blank_page)) = Some \<lparr>lat = 81 / 2, lng = - (297 / 4)\<rparr> \<and>
   location (form (fold map_click
     [\<lparr>lat = 103 / 2, lng = - (1 / 8)\<rparr>, \<lparr>lat = 81 / 2, lng = - (297 / 4)\<rparr>]
     (run [] blank_page))) = ''40.500000, -74.250000''"
proof -
  define c1 :: latlng where "c1 = \<lparr>lat = 103 / 2, lng = - (1 / 8)\<rparr>"
  define c2 :: latlng where "c2 = \<lparr>lat = 81 / 2, lng = - (297 / 4)\<rparr>"
  have ne: "[c1, c2] \<noteq> []" by simp
  have b1: "\<bar>lat (last [c1, c2])\<bar> < 10 ^ 21" and b2: "\<bar>lng (last [c1, c2])\<bar> < 10 ^ 21"
    by (simp_all add: c2_def)
  have "toFixed (lat c2) 6 @ '', '' @ toFixed (lng c2) 6 = ''40.500000, -74.250000''"
    by (simp add: c2_def toFixed_examples)
  then show ?thesis
    using map_clicks_one_marker [OF initial_blank_page ne b1 b2, of "[]"] initial_blank_page
    unfolding Let_def c1_def [symmetric] c2_def [symmetric] by (simp add: c2_def)
qed

section \<open>A submission the server accepts\<close>

lemma handleReportSubmission_last_request:
  "last (requests (handleReportSubmission ts r now s)) = PostReports (collect ts s) (photo (form s))"
  by (simp add: handleReportSubmission_def Let_def submission_catch_simps showSuccessModal_def
      split: fetched.splits option.splits)

lemma handleReportSubmission_accepted:
  assumes "ok code"
  shows "report_id_text (handleReportSubmission ts (Response code (Some i)) now s) = i"
    and "\<not> success_modal_hidden (handleReportSubmission ts (Response code (Some i)) now s)"
    and "form (handleReportSubmission ts (Response code (Some i)) now s) = form_defaults"
    and "photo_preview (handleReportSubmission ts (Response code (Some i)) now s) = []"
    and "selectedLocation (handleReportSubmission ts (Response code (Some i)) now s) =
         selectedLocation s"
    and "marker (handleReportSubmission ts (Response code (Some i)) now s) = marker s"
    and "map_layers (handleReportSubmission ts (Response code (Some i)) now s) =
         (case marker s of Some m \<Rightarrow> removeLayer m (map_layers s) | None \<Rightarrow> map_layers s)"
  using assms
  by (simp_all add: handleReportSubmission_def Let_def showSuccessModal_def split: option.splits)

lemma marker_inv_removeLayer:
  "marker_inv s \<Longrightarrow>
     (case marker s of Some m \<Rightarrow> removeLayer m (map_layers s) | None \<Rightarrow> map_layers s) = []"
proof (cases "marker s")
  case None
  assume "marker_inv s"
  then show ?thesis using None by (cases "map_layers s") (simp_all add: marker_inv_def)
next
  case (Some m)
  assume "marker_inv s"
  then have "\<forall>l \<in> set (map_layers s). l = m"
    using Some by (auto simp: marker_inv_def list_all_iff)
  then show ?thesis using Some by (simp add: removeLayer_def filter_empty_conv)
qed

text \<open>
  On any page reached from an initial one, a submission answered with a success status and a
  report identifier shows that identifier in the success modal, resets the form (every
  control empty, no file selected), removes all photo previews and takes the marker off the
  map.
\<close>

lemma handleReportSubmission_accepted_page:
  "initial s0 \<Longrightarrow> ok code \<Longrightarrow>
     (let s' = handleReportSubmission ts (Response code (Some reportId)) now (run es s0)
      in report_id_text s' = reportId \<and>
         \<not> success_modal_hidden s' \<and>
         form s' = \<lparr>issueType = '''', description = '''', location = '''', reporterName = '''',
                     reporterEmail = '''', reporterPhone = '''', photo = []\<rparr> \<and>
         photo_preview s' = [] \<and>
         map_layers s' = [])"
proof -
  assume init: "initial s0" and c: "ok code"
  have inv: "marker_inv (run es s0)"
    using init by (simp add: marker_inv_initial marker_inv_run)
  show ?thesis
    unfolding Let_def
    using marker_inv_removeLayer [OF inv]
    by (simp add: handleReportSubmission_accepted [OF c] form_defaults_def)
qed

text \<open>
  C1. The claim: a submission answered with a success status and a report identifier shows
  the identifier in the modal, empties the form, removes the previews, and clears both the
  marker and the stored coordinate selection, so that a later submission without a new map
  click carries no coordinates. What \<open>handleReportSubmission\<close> does after a click on the map at
  (40.5, -74.25) and an answer with status 200 and the identifier RPT42: the modal shows
  RPT42, the location control is blank, there is no preview and no marker on the map, as
  claimed; but \<open>selectedLocation\<close> still holds the clicked coordinate, and the next submission,
  made without another click, carries it.
\<close>

theorem handleReportSubmission_stale_selection:
  "report_id_text
     (handleReportSubmission ''2024-01-15T10:30:00.000Z'' (Response 200 (Some ''RPT42'')) 0
       (map_click \<lparr>lat = 81 / 2, lng = - (297 / 4)\<rparr> blank_page)) = ''RPT42'' \<and>
   location (form
     (handleReportSubmission ''2024-01-15T10:30:00.000Z'' (Response 200 (Some ''RPT42'')) 0
       (map_click \<lparr>lat = 81 / 2, lng = - (297 / 4)\<rparr> blank_page))) = '''' \<and>
   photo_preview
     (handleReportSubmission ''2024-01-15T10:30:00.000Z'' (Response 200 (Some ''RPT42'')) 0
       (map_click \<lparr>lat = 81 / 2, lng = - (297 / 4)\<rparr> blank_page)) = [] \<and>
   map_layers
     (handleReportSubmission ''2024-01-15T10:30:00.000Z'' (Response 200 (Some ''RPT42'')) 0
       (map_click \<lparr>lat = 81 / 2, lng = - (297 / 4)\<rparr> blank_page)) = [] \<and>
   selectedLocation
     (handleReportSubmission ''2024-01-15T10:30:00.000Z'' (Response 200 (Some ''RPT42'')) 0
       (map_click \<lparr>lat = 81 / 2, lng = - (297 / 4)\<rparr> blank_page)) =
     Some \<lparr>lat = 81 / 2, lng = - (297 / 4)\<rparr> \<and>
   request_coordinates (last (requests
     (handleReportSubmission ''2024-01-15T10:31:00.000Z'' (Response 200 (Some ''RPT43'')) 0
       (handleReportSubmission ''2024-01-15T10:30:00.000Z'' (Response 200 (Some ''RPT42'')) 0
         (map_click \<lparr>lat = 81 / 2, lng = - (297 / 4)\<rparr> blank_page))))) =
     Some \<lparr>lat = 81 / 2, lng = - (297 / 4)\<rparr>"
proof -
  define s where "s = map_click \<lparr>lat = 81 / 2, lng = - (297 / 4)\<rparr> blank_page"
  have c: "ok 200" by (simp add: ok_def)
  have inv: "marker_inv blank_page"
    by (rule marker_inv_initial [OF initial_blank_page])
  have "map_layers s = [\<lparr>layer_id = layers_created blank_page,
      layer_latlng = \<lparr>lat = 81 / 2, lng = - (297 / 4)\<rparr>\<rparr>]"
    and "marker s = Some \<lparr>layer_id = layers_created blank_page,
      layer_latlng = \<lparr>lat = 81 / 2, lng = - (297 / 4)\<rparr>\<rparr>"
    unfolding s_def by (rule map_click_layers [OF inv])+
  then have gone: "(case marker s of Some m \<Rightarrow> removeLayer m (map_layers s) | None \<Rightarrow> map_layers s) = []"
    by (simp add: removeLayer_def)
  have sel: "selectedLocation s = Some \<lparr>lat = 81 / 2, lng = - (297 / 4)\<rparr>"
    unfolding s_def by (simp add: map_click_selection)
  show ?thesis
    unfolding s_def [symmetric]
    by (simp add: handleReportSubmission_last_request handleReportSubmission_accepted [OF c]
        collect_def gone sel form_defaults_def)
qed

section \<open>Photo previews\<close>

lemma reader_onload_count:
  "length (photo_preview (reader_onload i s)) + length (readers (reader_onload i s)) =
   length (photo_preview s) + length (readers s)"
  by (auto simp: reader_onload_def)

lemma reader_onload_urls:
  "set (photo_preview (reader_onload i s)) \<union> file_dataURL ` set (readers (reader_onload i s)) =
   set (photo_preview s) \<union> file_dataURL ` set (readers s)"
proof (cases "i < length (readers s)")
  case True
  then have "set (readers s) = set (take i (readers s) @ drop (Suc i) (readers s)) \<union> {readers s ! i}"
    by (metis Un_insert_right id_take_nth_drop list.simps(15) set_append sup_bot.right_neutral)
  then show ?thesis using True by (auto simp: reader_onload_def)
next
  case False
  then show ?thesis by (simp add: reader_onload_def)
qed

lemma readers_done_count:
  "length (photo_preview (fold reader_onload is s)) + length (readers (fold reader_onload is s)) =
   length (photo_preview s) + length (readers s)"
  by (induction "is" arbitrary: s) (simp_all add: reader_onload_count)

lemma readers_done_urls:
  "set (photo_preview (fold reader_onload is s)) \<union>
     file_dataURL ` set (readers (fold reader_onload is s)) =
   set (photo_preview s) \<union> file_dataURL ` set (readers s)"
  by (induction "is" arbitrary: s) (simp_all add: reader_onload_urls)

text \<open>Every read in flight finishes: letting the first reader finish, again and again, leaves none.\<close>

lemma readers_all_finish:
  "readers (fold reader_onload (replicate (length (readers s)) 0) s) = []"
proof (induction "length (readers s)" arbitrary: s)
  case 0
  then show ?case by simp
next
  case (Suc n)
  have "length (readers (reader_onload 0 s)) = n"
    using Suc.hyps(2) by (auto simp: reader_onload_def)
  then have "readers (fold reader_onload (replicate n 0) (reader_onload 0 s)) = []"
    using Suc.hyps(1) [of "reader_onload 0 s"] by simp
  then show ?case
    using Suc.hyps(2) [symmetric] by (simp add: funpow_swap1)
qed

lemma photo_change_simps:
  "photo_preview (photo_change fs s) = []"
  "readers (photo_change fs s) = readers s @ filter is_image fs"
  "photo (form (photo_change fs s)) = fs"
  by (simp_all add: photo_change_def handlePhotoPreview_def)

text \<open>
  C8, as claimed, fails: pick one PNG file, pick again (this time nothing) before its reader
  has finished, and let the reader finish: the container then holds one preview, while the
  new selection has no image file.
\<close>

theorem photo_change_stale_reader_counterexample:
  "readers (reader_onload 0 (photo_change []
     (photo_change [\<lparr>file_type = ''image/png'', file_dataURL = ''data:image/png;base64,iVBORw0KGgo=''\<rparr>]
       blank_page))) = [] \<and>
   photo_preview (reader_onload 0 (photo_change []
     (photo_change [\<lparr>file_type = ''image/png'', file_dataURL = ''data:image/png;base64,iVBORw0KGgo=''\<rparr>]
       blank_page))) = [''data:image/png;base64,iVBORw0KGgo=''] \<and>
   length (photo_preview (reader_onload 0 (photo_change []
     (photo_change [\<lparr>file_type = ''image/png'', file_dataURL = ''data:image/png;base64,iVBORw0KGgo=''\<rparr>]
       blank_page)))) \<noteq> length (filter is_image [])"
  by (simp add: reader_onload_def photo_change_simps is_image_def startsWith_def blank_page_def)

text \<open>
  C8, amended. When the selection of the photo input changes while no read started for an
  earlier selection is still in flight, all previews rendered before are discarded at once,
  one read is started for each file of the new selection whose type starts with \<open>image/\<close>,
  and once these reads have finished (in whatever order) the number of previews equals the
  number of such files, however many previews there were before; the previews are the data
  URLs of these files, so a file that is not an image produces none.
\<close>

theorem photo_change_previews:
  "readers s = [] \<Longrightarrow> readers (fold reader_onload is (photo_change fs s)) = [] \<Longrightarrow>
     photo_preview (photo_change fs s) = [] \<and>
     readers (photo_change fs s) = filter is_image fs \<and>
     length (photo_preview (fold reader_onload is (photo_change fs s))) =
       length (filter is_image fs) \<and>
     set (photo_preview (fold reader_onload is (photo_change fs s))) =
       file_dataURL ` set (filter is_image fs)"
  using readers_done_count [of "is" "photo_change fs s"]
    readers_done_urls [of "is" "photo_change fs s"]
  by (simp add: photo_change_simps)

theorem photo_change_previews_witness:
  "readers (blank_page\<lparr>photo_preview := [''data:image/gif;base64,R0lGODlh'']\<rparr>) = [] \<and>
   readers (fold reader_onload [0, 0]
     (photo_change
       [\<lparr>file_type = ''image/png'', file_dataURL = ''data:image/png;base64,iVBORw0KGgo=''\<rparr>,
        \<lparr>file_type = ''application/pdf'', file_dataURL = ''data:application/pdf;base64,JVBERi0=''\<rparr>,
        \<lparr>file_type = ''image/jpeg'', file_dataURL = ''data:image/jpeg;base64,/9j/4AAQ''\<rparr>]
       (blank_page\<lparr>photo_preview := [''data:image/gif;base64,R0lGODlh'']\<rparr>))) = [] \<and>
   length (photo_preview (fold reader_onload [0, 0]
     (photo_change
       [\<lparr>file_type = ''image/png'', file_dataURL = ''data:image/png;base64,iVBORw0KGgo=''\<rparr>,
        \<lparr>file_type = ''application/pdf'', file_dataURL = ''data:application/pdf;base64,JVBERi0=''\<rparr>,
        \<lparr>file_type = ''image/jpeg'', file_dataURL = ''data:image/jpeg;base64,/9j/4AAQ''\<rparr>]
       (blank_page\<lparr>photo_preview := [''data:image/gif;base64,R0lGODlh'']\<rparr>)))) = 2"
proof -
  define s where "s = blank_page\<lparr>photo_preview := [''data:image/gif;base64,R0lGODlh'']\<rparr>"
  define fs where "fs =
    [\<lparr>file_type = ''image/png'', file_dataURL = ''data:image/png;base64,iVBORw0KGgo=''\<rparr>,
     \<lparr>file_type = ''application/pdf'', file_dataURL = ''data:application/pdf;base64,JVBERi0=''\<rparr>,
     \<lparr>file_type = ''image/jpeg'', file_dataURL = ''data:image/jpeg;base64,/9j/4AAQ''\<rparr>]"
  have r: "readers s = []" by (simp add: s_def blank_page_def)
  have n: "length (filter is_image fs) = 2"
    by (simp add: fs_def is_image_def startsWith_def)
  have "readers (photo_change fs s) = filter is_image fs"
    by (simp add: photo_change_simps r)
  then have "length (readers (photo_change fs s)) = 2" using n by simp
  then have d: "readers (fold reader_onload [0, 0] (photo_change fs s)) = []"
    using readers_all_finish [of "photo_change fs s"] by (simp add: numeral_2_eq_2)
  show ?thesis
    using r d n photo_change_previews [OF r d]
    unfolding s_def [symmetric] fs_def [symmetric] by simp
qed

end
